theory Spec2Isabelle
  imports Main "HOL-Library.Word"
begin

section \<open>JavaScript values and strings\<close>

text \<open>
  A JavaScript string is modelled as a \<^typ>\<open>string\<close>: one \<^typ>\<open>char\<close> per code unit,
  for code units below 256. The backslash and the line feed are written as characters,
  since a string literal of the logic cannot hold them.
\<close>

abbreviation BS :: char where
  "BS \<equiv> CHR 0x5C"

abbreviation LF :: char where
  "LF \<equiv> CHR 0x0A"

text \<open>
  The primitive values an option field can hold. A property that is absent reads as
  \<open>JUndefined\<close>. The numbers are the integers of 32 bits, each held as the word of its
  two's complement; every one of them is a number of the language, and the only zero
  among them is the word 0.
\<close>

datatype js_value = JUndefined | JNull | JBoolean bool | JNumber "32 word" | JString string

text \<open>What \<^verbatim>\<open>new Error(msg)\<close>, \<^verbatim>\<open>new TypeError(msg)\<close> and an unbound identifier throw.\<close>

datatype js_error = Error string | TypeError string | ReferenceError string

text \<open>ToBoolean: \<^verbatim>\<open>undefined\<close>, \<^verbatim>\<open>null\<close>, \<^verbatim>\<open>false\<close>, \<^verbatim>\<open>0\<close> and \<^verbatim>\<open>''\<close> are falsy.\<close>

fun truthy :: "js_value \<Rightarrow> bool" where
  "truthy JUndefined = False"
| "truthy JNull = False"
| "truthy (JBoolean b) = b"
| "truthy (JNumber n) = (n \<noteq> 0)"
| "truthy (JString s) = (s \<noteq> [])"

text \<open>The operator \<^verbatim>\<open>a || b\<close>.\<close>

definition js_or :: "js_value \<Rightarrow> js_value \<Rightarrow> js_value" where
  "js_or a b = (if truthy a then a else b)"

text \<open>The decimal digits of a natural number, most significant first.\<close>

fun digits :: "nat \<Rightarrow> string" where
  "digits n =
     (if n < 10 then [''0123456789'' ! n]
      else digits (n div 10) @ [''0123456789'' ! (n mod 10)])"

text \<open>An integer in decimal digits, with a minus sign when it is negative.\<close>

definition decimal :: "int \<Rightarrow> string" where
  "decimal n = (if n < 0 then CHR ''-'' # digits (nat (- n)) else digits (nat n))"

text \<open>
  ToString, which \<^verbatim>\<open>'' + v\<close> applies to a primitive value. A number that is an integer
  of 32 bits is written in decimal digits.
\<close>

fun ToString :: "js_value \<Rightarrow> string" where
  "ToString JUndefined = ''undefined''"
| "ToString JNull = ''null''"
| "ToString (JBoolean b) = (if b then ''true'' else ''false'')"
| "ToString (JNumber n) = decimal (sint n)"
| "ToString (JString s) = s"

text \<open>
  White space and line terminators among the code units below 256: tab, line feed,
  vertical tab, form feed, carriage return, space and no-break space. They are what
  \<^verbatim>\<open>\s\<close> matches and what \<^verbatim>\<open>trim\<close> strips.
\<close>

definition is_space :: "char \<Rightarrow> bool" where
  "is_space c =
     (c \<in> set [CHR 0x09, CHR 0x0A, CHR 0x0B, CHR 0x0C, CHR 0x0D, CHR 0x20, CHR 0xA0])"

text \<open>\<^verbatim>\<open>String.prototype.trim\<close>.\<close>

definition trim :: "string \<Rightarrow> string" where
  "trim s = rev (dropWhile is_space (rev (dropWhile is_space s)))"

text \<open>
  \<^verbatim>\<open>String.prototype.split\<close> with a separator of one character: the pieces between
  the separators, an empty piece included; the empty string gives one empty piece.
\<close>

fun split_acc :: "char \<Rightarrow> string \<Rightarrow> string \<Rightarrow> string list" where
  "split_acc sep cur [] = [cur]"
| "split_acc sep cur (c # cs) =
     (if c = sep then cur # split_acc sep [] cs else split_acc sep (cur @ [c]) cs)"

definition split :: "string \<Rightarrow> char \<Rightarrow> string list" where
  "split s sep = split_acc sep [] s"

text \<open>\<^verbatim>\<open>Array.prototype.indexOf\<close>: the first index of an element, or -1.\<close>

fun indexOf_from :: "'a list \<Rightarrow> 'a \<Rightarrow> int \<Rightarrow> int" where
  "indexOf_from [] x i = - 1"
| "indexOf_from (y # ys) x i = (if y = x then i else indexOf_from ys x (i + 1))"

definition indexOf :: "'a list \<Rightarrow> 'a \<Rightarrow> int" where
  "indexOf xs x = indexOf_from xs x 0"

text \<open>
  \<^verbatim>\<open>String.prototype.lastIndexOf\<close> for a search string of one character: the search
  runs from the end of the string backwards; -1 when the character does not occur.
\<close>

definition lastIndexOf :: "string \<Rightarrow> char \<Rightarrow> int" where
  "lastIndexOf s c =
     (case filter (\<lambda>i. s ! i = c) (rev [0..<length s]) of
        [] \<Rightarrow> - 1
      | i # _ \<Rightarrow> int i)"

text \<open>
  \<^verbatim>\<open>String.prototype.substring\<close>: both indices are clamped to the string, and swapped
  when the first is the greater.
\<close>

definition substring :: "string \<Rightarrow> int \<Rightarrow> int \<Rightarrow> string" where
  "substring s a b =
     (let n = int (length s);
          a' = min (max a 0) n;
          b' = min (max b 0) n;
          lo = min a' b';
          hi = max a' b'
      in take (nat (hi - lo)) (drop (nat lo) s))"

section \<open>Regular expressions\<close>

text \<open>
  A backtracking matcher maps the input to the ways it can match a prefix of it, each
  the text consumed and the text left, in the order the engine tries them. A regular
  expression matches with the first way that lets the rest of the pattern match.
\<close>

type_synonym matcher = "string \<Rightarrow> (string \<times> string) list"

text \<open>A character class, \<^verbatim>\<open>[...]\<close>, \<^verbatim>\<open>\s\<close> or \<^verbatim>\<open>.\<close>: one character that satisfies it.\<close>

definition rx_class :: "(char \<Rightarrow> bool) \<Rightarrow> matcher" where
  "rx_class P s = (case s of [] \<Rightarrow> [] | c # cs \<Rightarrow> if P c then [([c], cs)] else [])"

text \<open>A literal word.\<close>

definition rx_lit :: "string \<Rightarrow> matcher" where
  "rx_lit w s = (if take (length w) s = w then [(w, drop (length w) s)] else [])"

text \<open>One pattern after another.\<close>

definition rx_seq :: "matcher \<Rightarrow> matcher \<Rightarrow> matcher" where
  "rx_seq m1 m2 s =
     concat (map (\<lambda>(c1, r1). map (\<lambda>(c2, r2). (c1 @ c2, r2)) (m2 r1)) (m1 s))"

text \<open>An alternation \<^verbatim>\<open>a|b|...\<close>: the alternatives from left to right.\<close>

definition rx_alts :: "matcher list \<Rightarrow> matcher" where
  "rx_alts ms s = concat (map (\<lambda>m. m s) ms)"

text \<open>
  The greedy \<^verbatim>\<open>*\<close>: one more iteration first, then none. An iteration that consumes
  nothing is rejected, as the language prescribes.
\<close>

function rx_star :: "matcher \<Rightarrow> matcher" where
  "rx_star m s =
     concat (map (\<lambda>(c, r). if length r < length s
                            then map (\<lambda>(c', r'). (c @ c', r')) (rx_star m r)
                            else [])
                 (m s))
     @ [([], s)]"
  by pat_completeness auto
termination
  by (relation "measure (\<lambda>(m, s). length s)") auto

text \<open>The greedy \<^verbatim>\<open>+\<close>.\<close>

definition rx_plus :: "matcher \<Rightarrow> matcher" where
  "rx_plus m = rx_seq m (rx_star m)"

text \<open>The letters, the digits and the underscore: \<^verbatim>\<open>a-zA-Z0-9_\<close>.\<close>

definition is_word :: "char \<Rightarrow> bool" where
  "is_word c =
     (c \<in> set ''abcdefghijklmnopqrstuvwxyzABCDEFGHIJKLMNOPQRSTUVWXYZ0123456789_'')"

text \<open>The class \<^verbatim>\<open>.\<close>: any character but a line terminator.\<close>

definition is_dot :: "char \<Rightarrow> bool" where
  "is_dot c = (c \<noteq> CHR 0x0A \<and> c \<noteq> CHR 0x0D)"

section \<open>The constants of the module\<close>

definition HKLM :: string where "HKLM = ''HKLM''"
definition HKCU :: string where "HKCU = ''HKCU''"
definition HKCR :: string where "HKCR = ''HKCR''"
definition HKU :: string where "HKU = ''HKU''"
definition HKCC :: string where "HKCC = ''HKCC''"

definition HIVES :: "string list" where
  "HIVES = [HKLM, HKCU, HKCR, HKU, HKCC]"

definition REG_SZ :: string where "REG_SZ = ''REG_SZ''"
definition REG_MULTI_SZ :: string where "REG_MULTI_SZ = ''REG_MULTI_SZ''"
definition REG_EXPAND_SZ :: string where "REG_EXPAND_SZ = ''REG_EXPAND_SZ''"
definition REG_DWORD :: string where "REG_DWORD = ''REG_DWORD''"
definition REG_QWORD :: string where "REG_QWORD = ''REG_QWORD''"
definition REG_BINARY :: string where "REG_BINARY = ''REG_BINARY''"
definition REG_NONE :: string where "REG_NONE = ''REG_NONE''"

definition REG_TYPES :: "string list" where
  "REG_TYPES =
     [REG_SZ, REG_MULTI_SZ, REG_EXPAND_SZ, REG_DWORD, REG_QWORD, REG_BINARY, REG_NONE]"

text \<open>
  \<^verbatim>\<open>KEY_PATTERN = /(\\[a-zA-Z0-9_\s]+)*/\<close>: a starred group of a backslash and one or
  more characters of the class. The pattern has no anchor.
\<close>

definition KEY_PATTERN :: matcher where
  "KEY_PATTERN =
     rx_star (rx_seq (rx_lit [BS]) (rx_plus (rx_class (\<lambda>c. is_word c \<or> is_space c))))"

text \<open>
  \<^verbatim>\<open>KEY_PATTERN.test(s)\<close>: the engine tries every start index from 0 to the length of
  the string and reports whether the pattern matches at one of them.
\<close>

definition KEY_PATTERN_test :: "string \<Rightarrow> bool" where
  "KEY_PATTERN_test s = list_ex (\<lambda>i. KEY_PATTERN (drop i s) \<noteq> []) [0..<Suc (length s)]"

text \<open>
  \<^verbatim>\<open>PATH_PATTERN = /^(HKEY_LOCAL_MACHINE|HKEY_CURRENT_USER|HKEY_CLASSES_ROOT|HKEY_USERS|HKEY_CURRENT_CONFIG)(.*)$/\<close>.
  The anchor \<^verbatim>\<open>^\<close> lets the match start at index 0 only, and \<^verbatim>\<open>$\<close> asks that nothing
  is left. \<open>PATH_PATTERN_exec\<close> gives the two groups of the first match.
\<close>

definition PATH_PATTERN_exec :: "string \<Rightarrow> (string \<times> string) option" where
  "PATH_PATTERN_exec s =
     (case [(g1, g2).
              (g1, r1) \<leftarrow> rx_alts [rx_lit ''HKEY_LOCAL_MACHINE'', rx_lit ''HKEY_CURRENT_USER'',
                                   rx_lit ''HKEY_CLASSES_ROOT'', rx_lit ''HKEY_USERS'',
                                   rx_lit ''HKEY_CURRENT_CONFIG''] s,
              (g2, r2) \<leftarrow> rx_star (rx_class is_dot) r1,
              r2 = []] of
        [] \<Rightarrow> None
      | m # _ \<Rightarrow> Some m)"

text \<open>
  \<^verbatim>\<open>ITEM_PATTERN = /^([a-zA-Z0-9_\s\\-]+)\s(REG_SZ|REG_MULTI_SZ|REG_EXPAND_SZ|REG_DWORD|REG_QWORD|REG_BINARY|REG_NONE)\s+([^\s].*)$/\<close>.
  \<open>ITEM_PATTERN_exec\<close> gives the three groups of the first match.
\<close>

definition ITEM_PATTERN_exec :: "string \<Rightarrow> (string \<times> string \<times> string) option" where
  "ITEM_PATTERN_exec s =
     (case [(g1, g2, g3).
              (g1, r1) \<leftarrow> rx_plus (rx_class (\<lambda>c. is_word c \<or> is_space c \<or> c = BS \<or> c = CHR ''-'')) s,
              (w1, r2) \<leftarrow> rx_class is_space r1,
              (g2, r3) \<leftarrow> rx_alts [rx_lit ''REG_SZ'', rx_lit ''REG_MULTI_SZ'',
                                   rx_lit ''REG_EXPAND_SZ'', rx_lit ''REG_DWORD'',
                                   rx_lit ''REG_QWORD'', rx_lit ''REG_BINARY'',
                                   rx_lit ''REG_NONE''] r2,
              (w2, r4) \<leftarrow> rx_plus (rx_class is_space) r3,
              (g3, r5) \<leftarrow> rx_seq (rx_class (\<lambda>c. \<not> is_space c)) (rx_star (rx_class is_dot)) r4,
              r5 = []] of
        [] \<Rightarrow> None
      | m # _ \<Rightarrow> Some m)"

section \<open>RegistryItem and Registry\<close>

text \<open>A registry value record, as the constructor \<^verbatim>\<open>RegistryItem\<close> builds it.\<close>

record registry_item =
  item_host :: string
  item_hive :: string
  item_key :: string
  item_name :: string
  item_type :: string
  item_value :: string

definition RegistryItem ::
  "string \<Rightarrow> string \<Rightarrow> string \<Rightarrow> string \<Rightarrow> string \<Rightarrow> string \<Rightarrow> registry_item" where
  "RegistryItem h v k n t x =
     \<lparr>item_host = h, item_hive = v, item_key = k, item_name = n, item_type = t, item_value = x\<rparr>"

text \<open>The options object: its three properties.\<close>

record options =
  opt_host :: js_value
  opt_hive :: js_value
  opt_key :: js_value

text \<open>The private members of a Registry object, which its getters return.\<close>

record registry =
  host :: string
  hive :: string
  key :: string

text \<open>
  The constructor \<^verbatim>\<open>Registry\<close>. \<open>None\<close> is a call with no options object (or with a
  falsy one), which the constructor replaces by \<^verbatim>\<open>{}\<close>. The primed names are the
  private members \<^verbatim>\<open>_options\<close>, \<^verbatim>\<open>_host\<close>, \<^verbatim>\<open>_hive\<close> and \<^verbatim>\<open>_key\<close>. The result is
  the frozen object, or the error thrown.
\<close>

definition Registry :: "options option \<Rightarrow> js_error + registry" where
  "Registry opts =
     (let options' = (case opts of
                        None \<Rightarrow> \<lparr>opt_host = JUndefined, opt_hive = JUndefined, opt_key = JUndefined\<rparr>
                      | Some given \<Rightarrow> given);
          host' = [] @ ToString (js_or (opt_host options') (JString []));
          hive' = [] @ ToString (js_or (opt_hive options') (JString HKLM));
          key' = [] @ ToString (js_or (opt_key options') (JString []))
      in if indexOf HIVES hive' = - 1 then Inl (Error ''illegal hive specified.'')
         else if \<not> KEY_PATTERN_test key' then Inl (Error ''illegal key specified.'')
         else Inr \<lparr>host = host', hive = hive', key = key'\<rparr>)"

text \<open>
  The getter \<^verbatim>\<open>path\<close>. With a host it reads the identifier \<^verbatim>\<open>host\<close>, which no scope
  of the module binds (the private member is \<^verbatim>\<open>_host\<close>): the read throws.
\<close>

definition Registry_path :: "registry \<Rightarrow> js_error + string" where
  "Registry_path self =
     (if length (host self) = 0 then Inr ([] @ hive self @ key self)
      else Inl (ReferenceError ''host is not defined''))"

text \<open>The getter \<^verbatim>\<open>parent\<close>.\<close>

definition Registry_parent :: "registry \<Rightarrow> js_error + registry" where
  "Registry_parent self =
     (let i = lastIndexOf (key self) BS
      in Registry (Some \<lparr>opt_host = JString (host self),
                         opt_hive = JString (hive self),
                         opt_key = JString (if i = - 1 then [] else substring (key self) 0 i)\<rparr>))"

section \<open>The operations\<close>

text \<open>
  An operation first runs to its \<^verbatim>\<open>return this\<close>: it throws, or it spawns the
  external tool \<^verbatim>\<open>REG\<close> with an argument vector. The model of that part gives the
  error thrown or the argument vector (\<open>cb\<close> says whether the callback argument is
  a function). The handlers the operation registers run later, with the exit code of
  the process (\<open>None\<close> for \<^verbatim>\<open>null\<close>) and the text captured from its output; their
  model gives the arguments of the call of the callback, \<open>None\<close> for \<^verbatim>\<open>null\<close>.
  An exit code is an unsigned integer of 32 bits, held as a word; the concatenation with
  a string writes it in decimal digits.
\<close>

definition exit_error :: "32 word option \<Rightarrow> js_error" where
  "exit_error code =
     Error (''process exited with code '' @
            (case code of None \<Rightarrow> ''null'' | Some n \<Rightarrow> decimal (uint n)))"

text \<open>
  The first loop of \<^verbatim>\<open>values\<close> and of \<^verbatim>\<open>get\<close> (the same text in both): every line
  is trimmed; a line that is not empty is pushed unless \<^verbatim>\<open>lineNumber\<close> is 0, and
  counted. The state is \<^verbatim>\<open>items\<close> and \<^verbatim>\<open>lineNumber\<close>.
\<close>

fun items_loop :: "string list \<Rightarrow> string list \<times> nat \<Rightarrow> string list \<times> nat" where
  "items_loop [] st = st"
| "items_loop (line # lines) (items, lineNumber) =
     (let l = trim line
      in if length l > 0
         then items_loop lines
                (if lineNumber \<noteq> 0 then items @ [l] else items, lineNumber + 1)
         else items_loop lines (items, lineNumber))"

definition values_items :: "string \<Rightarrow> string list" where
  "values_items buffer = fst (items_loop (split buffer LF) ([], 0))"

definition get_items :: "string \<Rightarrow> string list" where
  "get_items buffer = fst (items_loop (split buffer LF) ([], 0))"

text \<open>The first loop of \<^verbatim>\<open>keys\<close>: every line that is not empty is pushed.\<close>

fun keys_items_loop :: "string list \<Rightarrow> string list \<Rightarrow> string list" where
  "keys_items_loop [] items = items"
| "keys_items_loop (line # lines) items =
     (let l = trim line
      in if length l > 0 then keys_items_loop lines (items @ [l])
         else keys_items_loop lines items)"

definition keys_items :: "string \<Rightarrow> string list" where
  "keys_items buffer = keys_items_loop (split buffer LF) []"

text \<open>The second loop of \<^verbatim>\<open>values\<close>: a record for each item the pattern matches.\<close>

fun values_result_loop ::
  "registry \<Rightarrow> string list \<Rightarrow> registry_item list \<Rightarrow> registry_item list" where
  "values_result_loop self [] result = result"
| "values_result_loop self (item # items) result =
     (case ITEM_PATTERN_exec item of
        None \<Rightarrow> values_result_loop self items result
      | Some (m1, m2, m3) \<Rightarrow>
          values_result_loop self items
            (result @ [RegistryItem (host self) (hive self) (key self) (trim m1) (trim m2) m3]))"

text \<open>\<^verbatim>\<open>Registry.prototype.values\<close>, to its return.\<close>

definition Registry_values :: "registry \<Rightarrow> bool \<Rightarrow> js_error + string list" where
  "Registry_values self cb =
     (if \<not> cb then Inl (TypeError ''must specify a callback'')
      else case Registry_path self of
             Inl e \<Rightarrow> Inl e
           | Inr p \<Rightarrow> Inr [''QUERY'', p])"

text \<open>The handler of \<^verbatim>\<open>close\<close> in \<^verbatim>\<open>values\<close>.\<close>

definition values_close ::
  "registry \<Rightarrow> 32 word option \<Rightarrow> string \<Rightarrow> js_error option \<times> registry_item list option" where
  "values_close self code buffer =
     (if code \<noteq> Some 0 then (Some (exit_error code), None)
      else (None, Some (values_result_loop self (values_items buffer) [])))"

text \<open>
  The second loop of \<^verbatim>\<open>keys\<close>. Each accepted line constructs a Registry, and the
  constructor can throw.
\<close>

fun keys_result_loop ::
  "registry \<Rightarrow> string list \<Rightarrow> registry list \<Rightarrow> js_error + registry list" where
  "keys_result_loop self [] result = Inr result"
| "keys_result_loop self (item # items) result =
     (case PATH_PATTERN_exec item of
        None \<Rightarrow> keys_result_loop self items result
      | Some (hive', key') \<Rightarrow>
          if key' \<noteq> [] \<and> key' \<noteq> key self
          then (case Registry (Some \<lparr>opt_host = JString (host self),
                                      opt_hive = JString (hive self),
                                      opt_key = JString key'\<rparr>) of
                  Inl e \<Rightarrow> Inl e
                | Inr r \<Rightarrow> keys_result_loop self items (result @ [r]))
          else keys_result_loop self items result)"

text \<open>\<^verbatim>\<open>Registry.prototype.keys\<close>, to its return.\<close>

definition Registry_keys :: "registry \<Rightarrow> bool \<Rightarrow> js_error + string list" where
  "Registry_keys self cb =
     (if \<not> cb then Inl (TypeError ''must specify a callback'')
      else case Registry_path self of
             Inl e \<Rightarrow> Inl e
           | Inr p \<Rightarrow> Inr [''QUERY'', p])"

text \<open>
  The handler of \<^verbatim>\<open>end\<close> of the output stream in \<^verbatim>\<open>keys\<close>: it parses whatever the
  exit code is going to be. \<open>Inl\<close> is an error thrown inside the handler.
\<close>

definition keys_end ::
  "registry \<Rightarrow> string \<Rightarrow> js_error + (js_error option \<times> registry list option)" where
  "keys_end self buffer =
     (case keys_result_loop self (keys_items buffer) [] of
        Inl e \<Rightarrow> Inl e
      | Inr result \<Rightarrow> Inr (None, Some result))"

text \<open>The handler of \<^verbatim>\<open>close\<close> in \<^verbatim>\<open>keys\<close>: the calls of the callback it makes.\<close>

definition keys_close :: "32 word option \<Rightarrow> (js_error option \<times> registry list option) list" where
  "keys_close code = (if code \<noteq> Some 0 then [(Some (exit_error code), None)] else [])"

text \<open>\<^verbatim>\<open>Registry.prototype.get\<close>, to its return.\<close>

definition Registry_get :: "registry \<Rightarrow> string \<Rightarrow> bool \<Rightarrow> js_error + string list" where
  "Registry_get self name cb =
     (if \<not> cb then Inl (TypeError ''must specify a callback'')
      else case Registry_path self of
             Inl e \<Rightarrow> Inl e
           | Inr p \<Rightarrow> Inr [''QUERY'', p, ''/v'', name])"

text \<open>
  The handler of \<^verbatim>\<open>close\<close> in \<^verbatim>\<open>get\<close>. \<^verbatim>\<open>items[0] || ''\<close> is the first item (an item
  is never empty), or the empty string when there is none.
\<close>

definition get_close ::
  "registry \<Rightarrow> 32 word option \<Rightarrow> string \<Rightarrow> js_error option \<times> registry_item option" where
  "get_close self code buffer =
     (if code \<noteq> Some 0 then (Some (exit_error code), None)
      else
        (let items = get_items buffer;
             item = (case items of [] \<Rightarrow> [] | x # _ \<Rightarrow> x)
         in case ITEM_PATTERN_exec item of
              None \<Rightarrow> (None, None)
            | Some (m1, m2, m3) \<Rightarrow>
                (None, Some (RegistryItem (host self) (hive self) (key self)
                                          (trim m1) (trim m2) m3))))"

text \<open>
  \<^verbatim>\<open>Registry.prototype.set\<close>, to its spawn. The name, the type and the value are
  strings.
\<close>

definition Registry_set ::
  "registry \<Rightarrow> string \<Rightarrow> string \<Rightarrow> string \<Rightarrow> bool \<Rightarrow> js_error + string list" where
  "Registry_set self name type' value' cb =
     (if \<not> cb then Inl (TypeError ''must specify a callback'')
      else if indexOf REG_TYPES type' = - 1 then Inl (Error ''illegal type specified.'')
      else case Registry_path self of
             Inl e \<Rightarrow> Inl e
           | Inr p \<Rightarrow>
               (let args = [''ADD'', p];
                    args = (if name = [] then args @ [''/ve''] else args @ [''/v'', name]);
                    args = args @ [''/t'', type', ''/d'', value', ''/f'']
                in Inr args))"

text \<open>The handler of \<^verbatim>\<open>close\<close> in \<^verbatim>\<open>set\<close>.\<close>

definition set_close :: "32 word option \<Rightarrow> js_error option" where
  "set_close code = (if code \<noteq> Some 0 then Some (exit_error code) else None)"

text \<open>
  \<^verbatim>\<open>Registry.prototype.keyExists\<close>: it calls \<^verbatim>\<open>values\<close> with a function of its own,
  which passes \<^verbatim>\<open>err\<close> on and \<^verbatim>\<open>err === null\<close> as the answer.
\<close>

definition Registry_keyExists :: "registry \<Rightarrow> js_error + string list" where
  "Registry_keyExists self = Registry_values self True"

definition keyExists_close ::
  "registry \<Rightarrow> 32 word option \<Rightarrow> string \<Rightarrow> js_error option \<times> bool" where
  "keyExists_close self code buffer =
     (case values_close self code buffer of
        (err, items) \<Rightarrow> (err, (if err = None then True else False)))"

section \<open>The words of the specification\<close>

text \<open>
  The key grammar: zero or more segments, each a backslash and one or more characters
  that are letters, digits, underscores or white space; the whole key. Cut at the
  backslashes, such a key has nothing before the first backslash and a name of the
  class after each.
\<close>

definition key_grammar :: "string \<Rightarrow> bool" where
  "key_grammar k =
     (case split k BS of
        [] \<Rightarrow> False
      | p # ps \<Rightarrow>
          p = [] \<and> list_all (\<lambda>q. q \<noteq> [] \<and> list_all (\<lambda>c. is_word c \<or> is_space c) q) ps)"

text \<open>The lines of a text, trimmed, the empty ones left out.\<close>

definition nonempty_lines :: "string \<Rightarrow> string list" where
  "nonempty_lines buffer = filter (\<lambda>l. l \<noteq> []) (map trim (split buffer LF))"

text \<open>The retained lines: those lines without the first of them.\<close>

definition retained_lines :: "string \<Rightarrow> string list" where
  "retained_lines buffer = tl (nonempty_lines buffer)"

text \<open>
  The record parsed from a line: the line must match the value-line grammar; the host,
  the hive and the key are those of the queried location, the name and the type are the
  first and the second group, trimmed, and the value is what the third group holds.
\<close>

definition parsed_record :: "registry \<Rightarrow> string \<Rightarrow> registry_item option" where
  "parsed_record self l =
     (case ITEM_PATTERN_exec l of
        None \<Rightarrow> None
      | Some (m1, m2, m3) \<Rightarrow>
          Some \<lparr>item_host = host self, item_hive = hive self, item_key = key self,
                item_name = trim m1, item_type = trim m2, item_value = m3\<rparr>)"

text \<open>
  The keys a key listing names: what follows the hive token on each line that starts
  with one.
\<close>

definition listed_keys :: "string \<Rightarrow> string list" where
  "listed_keys buffer = map snd (List.map_filter PATH_PATTERN_exec (nonempty_lines buffer))"

section \<open>Facts about the library functions\<close>

lemma rx_star_nonempty: "rx_star m s \<noteq> []"
  by (subst rx_star.simps) simp

lemma KEY_PATTERN_test_always: "KEY_PATTERN_test s"
  unfolding KEY_PATTERN_test_def KEY_PATTERN_def list_ex_iff
  by (rule bexI [of _ 0]) (simp_all add: rx_star_nonempty)

lemma indexOf_from_ge: "x \<in> set xs \<Longrightarrow> 0 \<le> i \<Longrightarrow> 0 \<le> indexOf_from xs x i"
proof (induction xs arbitrary: i)
  case Nil
  then show ?case by simp
next
  case (Cons y ys)
  show ?case
  proof (cases "y = x")
    case True
    with Cons.prems show ?thesis by simp
  next
    case False
    with Cons.prems have "x \<in> set ys" by simp
    moreover from Cons.prems have "0 \<le> i + 1" by simp
    ultimately have "0 \<le> indexOf_from ys x (i + 1)" by (rule Cons.IH)
    with False show ?thesis by simp
  qed
qed

lemma indexOf_from_notin: "x \<notin> set xs \<Longrightarrow> indexOf_from xs x i = - 1"
  by (induction xs arbitrary: i) auto

lemma indexOf_minus_one: "(indexOf xs x = - 1) = (x \<notin> set xs)"
proof (cases "x \<in> set xs")
  case True
  then have "0 \<le> indexOf_from xs x 0" by (rule indexOf_from_ge) simp
  with True show ?thesis by (simp add: indexOf_def)
next
  case False
  then show ?thesis by (simp add: indexOf_def indexOf_from_notin)
qed

section \<open>Facts about the loops and the constructor\<close>

lemma items_loop_eq:
  "items_loop ls (items, n) =
     (items @ (if n = 0 then tl (filter (\<lambda>l. l \<noteq> []) (map trim ls))
               else filter (\<lambda>l. l \<noteq> []) (map trim ls)),
      n + length (filter (\<lambda>l. l \<noteq> []) (map trim ls)))"
proof (induction ls arbitrary: items n)
  case Nil
  then show ?case by simp
next
  case (Cons l ls)
  show ?case
  proof (cases "trim l = []")
    case True
    then show ?thesis by (simp add: Cons.IH)
  next
    case False
    then show ?thesis by (cases "n = 0") (simp_all add: Cons.IH)
  qed
qed

lemma values_items_retained: "values_items buffer = retained_lines buffer"
  by (simp add: values_items_def retained_lines_def nonempty_lines_def items_loop_eq)

lemma get_items_retained: "get_items buffer = retained_lines buffer"
  by (simp add: get_items_def retained_lines_def nonempty_lines_def items_loop_eq)

lemma keys_items_loop_eq:
  "keys_items_loop ls items = items @ filter (\<lambda>l. l \<noteq> []) (map trim ls)"
  by (induction ls arbitrary: items) simp_all

lemma keys_items_nonempty: "keys_items buffer = nonempty_lines buffer"
  by (simp add: keys_items_def nonempty_lines_def keys_items_loop_eq)

lemma hive_nonempty: "v \<in> set HIVES \<Longrightarrow> v \<noteq> []"
  by (auto simp: HIVES_def HKLM_def HKCU_def HKCR_def HKU_def HKCC_def)

lemma Registry_strings:
  assumes "v \<in> set HIVES"
  shows "Registry (Some \<lparr>opt_host = hv, opt_hive = JString v, opt_key = JString k\<rparr>) =
           Inr \<lparr>host = ToString (js_or hv (JString [])), hive = v, key = k\<rparr>"
proof -
  from assms have "v \<noteq> []" by (rule hive_nonempty)
  then have "ToString (js_or (JString v) (JString HKLM)) = v"
    by (simp add: js_or_def)
  moreover have "ToString (js_or (JString k) (JString [])) = k"
    by (cases k) (simp_all add: js_or_def)
  ultimately show ?thesis
    using assms by (simp add: Registry_def indexOf_minus_one KEY_PATTERN_test_always)
qed

lemma Registry_hive: "Registry opts = Inr r \<Longrightarrow> hive r \<in> set HIVES"
  by (simp add: Registry_def Let_def indexOf_minus_one KEY_PATTERN_test_always
           split: if_splits) auto

lemma values_result_loop_eq:
  "values_result_loop self items result = result @ List.map_filter (parsed_record self) items"
proof (induction items arbitrary: result)
  case Nil
  then show ?case by (simp add: List.map_filter_simps)
next
  case (Cons item items)
  show ?case
  proof (cases "ITEM_PATTERN_exec item")
    case None
    then show ?thesis by (simp add: Cons.IH List.map_filter_simps parsed_record_def)
  next
    case (Some m)
    then show ?thesis
      by (cases m) (simp add: Cons.IH List.map_filter_simps parsed_record_def RegistryItem_def)
  qed
qed

lemma keys_result_loop_eq:
  assumes "hive self \<in> set HIVES"
  shows "keys_result_loop self items result =
           Inr (result @ map (\<lambda>k. \<lparr>host = host self, hive = hive self, key = k\<rparr>)
                            (filter (\<lambda>k. k \<noteq> [] \<and> k \<noteq> key self)
                                    (map snd (List.map_filter PATH_PATTERN_exec items))))"
proof (induction items arbitrary: result)
  case Nil
  then show ?case by (simp add: List.map_filter_simps)
next
  case (Cons item items)
  have R: "Registry (Some \<lparr>opt_host = JString (host self), opt_hive = JString (hive self),
                            opt_key = JString k\<rparr>) =
             Inr \<lparr>host = host self, hive = hive self, key = k\<rparr>" for k
  proof -
    have "ToString (js_or (JString (host self)) (JString [])) = host self"
      by (cases "host self") (simp_all add: js_or_def)
    with Registry_strings [OF assms, of "JString (host self)" k] show ?thesis by simp
  qed
  show ?case
  proof (cases "PATH_PATTERN_exec item")
    case None
    then show ?thesis by (simp add: Cons.IH List.map_filter_simps)
  next
    case (Some m)
    obtain g k where m: "m = (g, k)" by (cases m)
    show ?thesis
    proof (cases "k \<noteq> [] \<and> k \<noteq> key self")
      case True
      with Some m show ?thesis by (simp add: Cons.IH List.map_filter_simps R)
    next
      case False
      with Some m show ?thesis by (auto simp: Cons.IH List.map_filter_simps)
    qed
  qed
qed

lemma lastIndexOf_last:
  assumes "c \<notin> set q"
  shows "lastIndexOf (p @ c # q) c = int (length p)"
proof -
  let ?s = "p @ c # q"
  have "[0..<length p + Suc (length q)] = [0..<length p] @ [length p..<length p + Suc (length q)]"
    by (rule upt_add_eq_append) simp
  moreover have "[length p..<length p + Suc (length q)] =
                   length p # [Suc (length p)..<length p + Suc (length q)]"
    by (rule upt_conv_Cons) simp
  ultimately have split: "[0..<length ?s] = [0..<length p] @ [length p] @ [Suc (length p)..<length ?s]"
    by simp
  have "\<forall>i \<in> set [Suc (length p)..<length ?s]. ?s ! i \<noteq> c"
  proof
    fix i assume "i \<in> set [Suc (length p)..<length ?s]"
    then have i: "Suc (length p) \<le> i" "i - Suc (length p) < length q" by auto
    have "?s ! i = (c # q) ! (i - length p)"
      using i by (simp add: nth_append)
    also have "i - length p = Suc (i - Suc (length p))"
      using i by simp
    finally have "?s ! i = q ! (i - Suc (length p))" by simp
    with i assms show "?s ! i \<noteq> c" by (metis nth_mem)
  qed
  then have "filter (\<lambda>i. ?s ! i = c) (rev [Suc (length p)..<length ?s]) = []"
    by (simp add: filter_empty_conv)
  then show ?thesis
    unfolding lastIndexOf_def split by (simp del: upt_Suc)
qed

lemma lastIndexOf_none: "c \<notin> set s \<Longrightarrow> lastIndexOf s c = - 1"
proof -
  assume "c \<notin> set s"
  then have "filter (\<lambda>i. s ! i = c) (rev [0..<length s]) = []"
    by (auto simp: filter_empty_conv)
  then show ?thesis by (simp add: lastIndexOf_def)
qed

lemma substring_take: "substring (p @ r) 0 (int (length p)) = p"
  by (simp add: substring_def Let_def)

lemma split_acc_no_sep: "sep \<notin> set h \<Longrightarrow> split_acc sep cur h = [cur @ h]"
  by (induction h arbitrary: cur) auto

lemma split_acc_sep:
  "sep \<notin> set h \<Longrightarrow> split_acc sep cur (h @ sep # rest) = (cur @ h) # split_acc sep [] rest"
  by (induction h arbitrary: cur) auto

section \<open>Facts about the operations\<close>

lemma ITEM_PATTERN_exec_empty: "ITEM_PATTERN_exec [] = None"
  by code_simp


lemma Registry_path_local: "host self = [] \<Longrightarrow> Registry_path self = Inr (hive self @ key self)"
  by (simp add: Registry_path_def)

lemma Registry_path_remote:
  "host self \<noteq> [] \<Longrightarrow> Registry_path self = Inl (ReferenceError ''host is not defined'')"
  by (simp add: Registry_path_def)

lemma Registry_set_illegal_type:
  "t \<notin> set REG_TYPES \<Longrightarrow> Registry_set self n t v True = Inl (Error ''illegal type specified.'')"
  by (simp add: Registry_set_def indexOf_minus_one)

lemma Registry_set_local:
  "t \<in> set REG_TYPES \<Longrightarrow> host self = [] \<Longrightarrow>
   Registry_set self n t v True =
     Inr ([''ADD'', hive self @ key self] @ (if n = [] then [''/ve''] else [''/v'', n]) @
          [''/t'', t, ''/d'', v, ''/f''])"
  by (simp add: Registry_set_def indexOf_minus_one Registry_path_local)

lemma keyExists_close_eq:
  "keyExists_close self code buffer =
     (if code \<noteq> Some 0 then (Some (exit_error code), False) else (None, True))"
  by (simp add: keyExists_close_def values_close_def)

lemma get_close_eq:
  "get_close self (Some 0) buffer =
     (None, case retained_lines buffer of [] \<Rightarrow> None | l # _ \<Rightarrow> parsed_record self l)"
proof (cases "retained_lines buffer")
  case Nil
  then show ?thesis
    by (simp add: get_close_def get_items_retained ITEM_PATTERN_exec_empty)
next
  case (Cons l ls)
  then show ?thesis
    by (simp add: get_close_def get_items_retained parsed_record_def RegistryItem_def
        split: option.splits)
qed

lemma values_close_eq:
  "values_close self (Some 0) buffer =
     (None, Some (List.map_filter (parsed_record self) (retained_lines buffer)))"
  by (simp add: values_close_def values_items_retained values_result_loop_eq)

lemma keys_end_eq:
  assumes "hive self \<in> set HIVES"
  shows "keys_end self buffer =
           Inr (None, Some (map (\<lambda>k. \<lparr>host = host self, hive = hive self, key = k\<rparr>)
                                (filter (\<lambda>k. k \<noteq> [] \<and> k \<noteq> key self) (listed_keys buffer))))"
  by (simp add: keys_end_def keys_items_nonempty keys_result_loop_eq [OF assms] listed_keys_def)

lemma trim_Nil: "trim [] = []"
  by (simp add: trim_def)

lemma nonempty_lines_sample:
  assumes "LF \<notin> set e" and "LF \<notin> set l"
  shows "nonempty_lines (e @ [LF, LF] @ l) = filter (\<lambda>l. l \<noteq> []) [trim e, trim l]"
proof -
  have "split (e @ LF # LF # l) LF = [e, [], l]"
    using assms
    by (simp add: split_def split_acc_sep [of LF e "[]", simplified]
        split_acc_sep [of LF "[]" "[]", simplified] split_acc_no_sep [of LF l "[]", simplified])
  then show ?thesis
    by (simp add: nonempty_lines_def trim_Nil)
qed


lemma Registry_self:
  assumes "Registry opts = Inr self"
  shows "Registry (Some \<lparr>opt_host = JString (host self), opt_hive = JString (hive self),
                          opt_key = JString k\<rparr>) =
           Inr \<lparr>host = host self, hive = hive self, key = k\<rparr>"
proof -
  have "ToString (js_or (JString (host self)) (JString [])) = host self"
    by (cases "host self") (simp_all add: js_or_def)
  with Registry_strings [OF Registry_hive [OF assms], of "JString (host self)" k]
  show ?thesis by simp
qed

lemma Registry_parent_segment:
  assumes "Registry opts = Inr self" and "key self = p @ BS # seg" and "BS \<notin> set seg"
  shows "Registry_parent self = Inr \<lparr>host = host self, hive = hive self, key = p\<rparr>"
proof -
  from assms(2,3) have i: "lastIndexOf (key self) BS = int (length p)"
    by (simp add: lastIndexOf_last)
  have "substring (key self) 0 (int (length p)) = p"
    unfolding assms(2) by (rule substring_take)
  with i show ?thesis
    by (simp add: Registry_parent_def Registry_self [OF assms(1)])
qed

lemma Registry_parent_root:
  assumes "Registry opts = Inr self" and "BS \<notin> set (key self)"
  shows "Registry_parent self = Inr \<lparr>host = host self, hive = hive self, key = []\<rparr>"
proof -
  from assms(2) have "lastIndexOf (key self) BS = - 1"
    by (rule lastIndexOf_none)
  then show ?thesis
    by (simp add: Registry_parent_def Registry_self [OF assms(1)])
qed

lemma keys_end_entries:
  assumes "Registry opts = Inr self"
  shows "\<exists>result. keys_end self buffer = Inr (None, Some result) \<and>
           (\<forall>e \<in> set result. key e \<noteq> key self \<and> host e = host self \<and> hive e = hive self) \<and>
           map key result = filter (\<lambda>k. k \<noteq> [] \<and> k \<noteq> key self) (listed_keys buffer)"
proof -
  from assms have h: "hive self \<in> set HIVES" by (rule Registry_hive)
  let ?ks = "filter (\<lambda>k. k \<noteq> [] \<and> k \<noteq> key self) (listed_keys buffer)"
  let ?res = "map (\<lambda>k. \<lparr>host = host self, hive = hive self, key = k\<rparr>) ?ks"
  have "keys_end self buffer = Inr (None, Some ?res)"
    by (rule keys_end_eq [OF h])
  moreover have "\<forall>e \<in> set ?res. key e \<noteq> key self \<and> host e = host self \<and> hive e = hive self"
    by auto
  moreover have "map key ?res = ?ks"
    by (simp add: comp_def)
  ultimately show ?thesis by blast
qed

section \<open>The claims\<close>

text \<open>
  C1. The claim: the constructor fails for every hive outside the five hive ids and for
  every key outside the key grammar. The constructor does reject such a hive (see
  \<open>Registry_illegal_hive\<close>), but its key test never fails (\<open>KEY_PATTERN_test_always\<close>):
  the pattern has no anchors, so it matches the empty word at index 0 of any string.
  Here a key with no leading backslash, a slash and an exclamation mark is outside the
  grammar and is accepted.
\<close>
theorem Registry_accepts_key_outside_grammar:
  "\<not> key_grammar ''Software/Run!'' \<and>
   Registry (Some \<lparr>opt_host = JUndefined, opt_hive = JString ''HKLM'',
                    opt_key = JString ''Software/Run!''\<rparr>) =
     Inr \<lparr>host = [], hive = ''HKLM'', key = ''Software/Run!''\<rparr>"
proof
  show "\<not> key_grammar ''Software/Run!''"
    by (simp add: key_grammar_def split_def)
  have "''HKLM'' \<in> set HIVES"
    by (simp add: HIVES_def HKLM_def)
  then show "Registry (Some \<lparr>opt_host = JUndefined, opt_hive = JString ''HKLM'',
                    opt_key = JString ''Software/Run!''\<rparr>) =
     Inr \<lparr>host = [], hive = ''HKLM'', key = ''Software/Run!''\<rparr>"
    by (simp add: Registry_strings js_or_def)
qed

text \<open>
  C2. The claim: the path is the hive and the key, with two backslashes, the host and
  a backslash before them when the host is not empty. Without a host the getter returns the hive and the key (see
  \<open>Registry_path_local\<close>); with one it throws, for every Registry (see
  \<open>Registry_path_remote\<close>). Here the Registry of host \<^verbatim>\<open>srv\<close> is constructed and its
  path is read.
\<close>
theorem Registry_path_with_host_throws:
  "Registry (Some \<lparr>opt_host = JString ''srv'', opt_hive = JString ''HKLM'',
                    opt_key = JString (BS # ''Software'')\<rparr>) =
     Inr \<lparr>host = ''srv'', hive = ''HKLM'', key = BS # ''Software''\<rparr> \<and>
   Registry_path \<lparr>host = ''srv'', hive = ''HKLM'', key = BS # ''Software''\<rparr> =
     Inl (ReferenceError ''host is not defined'')"
proof
  have "''HKLM'' \<in> set HIVES"
    by (simp add: HIVES_def HKLM_def)
  then show "Registry (Some \<lparr>opt_host = JString ''srv'', opt_hive = JString ''HKLM'',
                    opt_key = JString (BS # ''Software'')\<rparr>) =
     Inr \<lparr>host = ''srv'', hive = ''HKLM'', key = BS # ''Software''\<rparr>"
    by (simp add: Registry_strings js_or_def)
  show "Registry_path \<lparr>host = ''srv'', hive = ''HKLM'', key = BS # ''Software''\<rparr> =
     Inl (ReferenceError ''host is not defined'')"
    by (simp add: Registry_path_def)
qed




text \<open>
  C4, as stated, fails: the claim has \<^verbatim>\<open>get\<close> deliver the record of the first retained
  line that matches the value-line grammar. Here the first retained line does not match
  and the second does; \<^verbatim>\<open>get\<close> looks at the first only and delivers \<^verbatim>\<open>null\<close>.
\<close>
theorem get_ignores_later_matching_line:
  "get_close \<lparr>host = [], hive = ''HKCU'', key = BS # ''Software''\<rparr> (Some 0)
     (''HKEY_CURRENT_USER'' @ BS # ''Software'' @ [LF] @ ''(Default)    REG_SZ'' @ [LF] @
      ''Sample    REG_SZ    hello'') = (None, None) \<and>
   List.find (\<lambda>l. ITEM_PATTERN_exec l \<noteq> None)
     (retained_lines (''HKEY_CURRENT_USER'' @ BS # ''Software'' @ [LF] @ ''(Default)    REG_SZ'' @ [LF] @
      ''Sample    REG_SZ    hello'')) = Some ''Sample    REG_SZ    hello'' \<and>
   parsed_record \<lparr>host = [], hive = ''HKCU'', key = BS # ''Software''\<rparr> ''Sample    REG_SZ    hello'' =
     Some \<lparr>item_host = [], item_hive = ''HKCU'', item_key = BS # ''Software'',
            item_name = ''Sample'', item_type = ''REG_SZ'', item_value = ''hello''\<rparr>"
proof -
  let ?b = "''HKEY_CURRENT_USER'' @ BS # ''Software'' @ [LF] @ ''(Default)    REG_SZ'' @ [LF] @
      ''Sample    REG_SZ    hello''"
  have n: "nonempty_lines ?b =
      [''HKEY_CURRENT_USER'' @ BS # ''Software'', ''(Default)    REG_SZ'', ''Sample    REG_SZ    hello'']"
    by (simp add: nonempty_lines_def split_def trim_def is_space_def)
  then have r: "retained_lines ?b = [''(Default)    REG_SZ'', ''Sample    REG_SZ    hello'']"
    by (simp only: retained_lines_def list.sel)
  have d: "ITEM_PATTERN_exec ''(Default)    REG_SZ'' = None"
    by code_simp
  have s: "ITEM_PATTERN_exec ''Sample    REG_SZ    hello'' = Some (''Sample   '', ''REG_SZ'', ''hello'')"
    by code_simp
  have t: "trim ''Sample   '' = ''Sample''" "trim ''REG_SZ'' = ''REG_SZ''"
    by (simp_all add: trim_def is_space_def)
  have "get_close \<lparr>host = [], hive = ''HKCU'', key = BS # ''Software''\<rparr> (Some 0) ?b = (None, None)"
    unfolding get_close_eq r using d by (simp add: parsed_record_def)
  moreover have "List.find (\<lambda>l. ITEM_PATTERN_exec l \<noteq> None) (retained_lines ?b) =
      Some ''Sample    REG_SZ    hello''"
    unfolding r using d s by simp
  moreover have "parsed_record \<lparr>host = [], hive = ''HKCU'', key = BS # ''Software''\<rparr> ''Sample    REG_SZ    hello'' =
     Some \<lparr>item_host = [], item_hive = ''HKCU'', item_key = BS # ''Software'',
            item_name = ''Sample'', item_type = ''REG_SZ'', item_value = ''hello''\<rparr>"
    unfolding parsed_record_def using s t by simp
  ultimately show ?thesis by (intro conjI)
qed

text \<open>
  C4, amended. When the process exits with code 0, \<^verbatim>\<open>get\<close> delivers a null error and
  the record parsed from the first retained line, or \<^verbatim>\<open>null\<close> when there is no retained
  line or the first one does not match the value-line grammar. With any other exit code
  it delivers the error of the exit and \<^verbatim>\<open>null\<close>.
\<close>
theorem get_returns_first_retained_line:
  "get_close self (Some 0) buffer =
     (None, case retained_lines buffer of [] \<Rightarrow> None | l # _ \<Rightarrow> parsed_record self l) \<and>
   (code \<noteq> Some 0 \<longrightarrow> get_close self code buffer = (Some (exit_error code), None))"
  by (simp add: get_close_eq) (simp add: get_close_def)

text \<open>C4 on a text with a matching value line, on a text with none, and on exit code 1.\<close>
theorem get_returns_first_retained_line_witness:
  "get_close \<lparr>host = [], hive = ''HKCU'', key = BS # ''Software''\<rparr> (Some 0)
     (''HKEY_CURRENT_USER'' @ BS # ''Software'' @ [LF, LF] @ ''    Sample    REG_SZ    hello'' @ [LF]) =
     (None, Some \<lparr>item_host = [], item_hive = ''HKCU'', item_key = BS # ''Software'',
            item_name = ''Sample'', item_type = ''REG_SZ'', item_value = ''hello''\<rparr>) \<and>
   get_close \<lparr>host = [], hive = ''HKCU'', key = BS # ''Software''\<rparr> (Some 0)
     (''HKEY_CURRENT_USER'' @ BS # ''Software'' @ [LF]) = (None, None) \<and>
   get_close \<lparr>host = [], hive = ''HKCU'', key = BS # ''Software''\<rparr> (Some 1) [] =
     (Some (Error ''process exited with code 1''), None)"
proof -
  let ?r = "\<lparr>host = [], hive = ''HKCU'', key = BS # ''Software''\<rparr>"
  let ?b = "''HKEY_CURRENT_USER'' @ BS # ''Software'' @ [LF, LF] @ ''    Sample    REG_SZ    hello'' @ [LF]"
  let ?c = "''HKEY_CURRENT_USER'' @ BS # ''Software'' @ [LF]"
  have "nonempty_lines ?b = [''HKEY_CURRENT_USER'' @ BS # ''Software'', ''Sample    REG_SZ    hello'']"
    by (simp add: nonempty_lines_def split_def trim_def is_space_def)
  then have rb: "retained_lines ?b = [''Sample    REG_SZ    hello'']"
    by (simp only: retained_lines_def list.sel)
  have "nonempty_lines ?c = [''HKEY_CURRENT_USER'' @ BS # ''Software'']"
    by (simp add: nonempty_lines_def split_def trim_def is_space_def)
  then have rc: "retained_lines ?c = []"
    by (simp only: retained_lines_def list.sel)
  have s: "ITEM_PATTERN_exec ''Sample    REG_SZ    hello'' = Some (''Sample   '', ''REG_SZ'', ''hello'')"
    by code_simp
  have t: "trim ''Sample   '' = ''Sample''" "trim ''REG_SZ'' = ''REG_SZ''"
    by (simp_all add: trim_def is_space_def)
  have p: "parsed_record ?r ''Sample    REG_SZ    hello'' =
     Some \<lparr>item_host = [], item_hive = ''HKCU'', item_key = BS # ''Software'',
            item_name = ''Sample'', item_type = ''REG_SZ'', item_value = ''hello''\<rparr>"
    unfolding parsed_record_def using s t by simp
  have "get_close ?r (Some 0) ?b =
     (None, Some \<lparr>item_host = [], item_hive = ''HKCU'', item_key = BS # ''Software'',
            item_name = ''Sample'', item_type = ''REG_SZ'', item_value = ''hello''\<rparr>)"
    using get_returns_first_retained_line [of ?r ?b "Some 0"] by (simp only: rb p list.case)
  moreover have "get_close ?r (Some 0) ?c = (None, None)"
    using get_returns_first_retained_line [of ?r ?c "Some 0"] by (simp only: rc list.case)
  moreover have "get_close ?r (Some 1) [] = (Some (Error ''process exited with code 1''), None)"
    using get_returns_first_retained_line [of ?r "[]" "Some 1"] by (simp add: exit_error_def decimal_def)
  ultimately show ?thesis by (intro conjI)
qed

text \<open>
  C5. The claim: when the process of \<^verbatim>\<open>values\<close> exits with a code other than 0,
  \<^verbatim>\<open>keyExists\<close> answers false with a null error. The answer is false, but the error of
  \<^verbatim>\<open>values\<close> is passed on with it (see \<open>keyExists_close_eq\<close>). Here the process
  exits with code 1.
\<close>
theorem keyExists_reports_exit_error:
  "keyExists_close \<lparr>host = [], hive = ''HKCU'', key = BS # ''Missing''\<rparr> (Some 1) [] =
     (Some (Error ''process exited with code 1''), False)"
  by (simp add: keyExists_close_eq exit_error_def decimal_def)

text \<open>
  C6. The claim: no Registry that \<^verbatim>\<open>keys\<close> returns has the key of the queried Registry,
  each has its host and its hive, and the line that echoes the path of the queried key
  gives no entry. The first two hold for every constructed Registry and every captured
  text (see \<open>keys_end_entries\<close>). The third does not hold when the queried key ends in
  white space: the echoed line is trimmed before the pattern is applied, the key taken
  from it has lost the white space and differs from the queried key, and the line is
  returned as a subkey. Here the queried key is a backslash, \<^verbatim>\<open>Software\<close> and a space,
  a key of the key grammar, and the captured text is its echoed path.
\<close>
theorem keys_returns_echo_of_key_ending_in_space:
  "key_grammar (BS # ''Software '') \<and>
   Registry (Some \<lparr>opt_host = JUndefined, opt_hive = JString ''HKCU'',
                    opt_key = JString (BS # ''Software '')\<rparr>) =
     Inr \<lparr>host = [], hive = ''HKCU'', key = BS # ''Software ''\<rparr> \<and>
   keys_end \<lparr>host = [], hive = ''HKCU'', key = BS # ''Software ''\<rparr>
            (''HKEY_CURRENT_USER'' @ BS # ''Software '' @ [LF]) =
     Inr (None, Some [\<lparr>host = [], hive = ''HKCU'', key = BS # ''Software''\<rparr>])"
proof -
  define r where "r = \<lparr>host = [], hive = ''HKCU'', key = BS # ''Software ''\<rparr>"
  define b where "b = ''HKEY_CURRENT_USER'' @ BS # ''Software '' @ [LF]"
  have g: "key_grammar (BS # ''Software '')"
    by (simp add: key_grammar_def split_def is_word_def is_space_def)
  have h: "''HKCU'' \<in> set HIVES"
    by (simp add: HIVES_def HKCU_def)
  then have c: "Registry (Some \<lparr>opt_host = JUndefined, opt_hive = JString ''HKCU'',
                    opt_key = JString (BS # ''Software '')\<rparr>) = Inr r"
    by (simp add: Registry_strings js_or_def r_def)
  have n: "nonempty_lines b = [''HKEY_CURRENT_USER'' @ BS # ''Software'']"
    by (simp add: nonempty_lines_def split_def trim_def is_space_def b_def)
  have p: "PATH_PATTERN_exec (''HKEY_CURRENT_USER'' @ BS # ''Software'') =
      Some (''HKEY_CURRENT_USER'', BS # ''Software'')"
    by code_simp
  have l: "listed_keys b = [BS # ''Software'']"
    unfolding listed_keys_def n using p by (simp add: List.map_filter_simps)
  from h have "hive r \<in> set HIVES"
    by (simp add: r_def)
  then have "keys_end r b =
      Inr (None, Some (map (\<lambda>k. \<lparr>host = host r, hive = hive r, key = k\<rparr>)
                           (filter (\<lambda>k. k \<noteq> [] \<and> k \<noteq> key r) (listed_keys b))))"
    by (rule keys_end_eq)
  then have "keys_end r b = Inr (None, Some [\<lparr>host = [], hive = ''HKCU'', key = BS # ''Software''\<rparr>])"
    unfolding l by (simp add: r_def)
  with g c show ?thesis
    unfolding r_def b_def by (intro conjI)
qed

text \<open>
  C7. On a captured text of an echoed line (not blank, without a line feed), an empty
  line and the line \<^verbatim>\<open>Sample    REG_SZ    hello world\<close>, the handler of \<^verbatim>\<open>values\<close> returns
  one record, of name \<^verbatim>\<open>Sample\<close>, type \<^verbatim>\<open>REG_SZ\<close> and value \<^verbatim>\<open>hello world\<close>. On every
  text it returns, with a null error, the records of the retained lines that match the
  value-line grammar, in order; a line that does not match gives no record.
\<close>
theorem values_parses_sample_line:
  "(LF \<notin> set e \<and> trim e \<noteq> [] \<longrightarrow>
      values_close self (Some 0) (e @ [LF, LF] @ ''Sample    REG_SZ    hello world'') =
        (None, Some [\<lparr>item_host = host self, item_hive = hive self, item_key = key self,
                       item_name = ''Sample'', item_type = ''REG_SZ'',
                       item_value = ''hello world''\<rparr>])) \<and>
   values_close self (Some 0) buffer =
     (None, Some (List.map_filter (parsed_record self) (retained_lines buffer))) \<and>
   (ITEM_PATTERN_exec l = None \<longrightarrow> parsed_record self l = None)"
proof (intro conjI impI)
  let ?l = "''Sample    REG_SZ    hello world''"
  assume e: "LF \<notin> set e \<and> trim e \<noteq> []"
  have t: "trim ?l = ?l" "trim ''Sample   '' = ''Sample''" "trim ''REG_SZ'' = ''REG_SZ''"
    by (simp_all add: trim_def is_space_def)
  have s: "ITEM_PATTERN_exec ?l = Some (''Sample   '', ''REG_SZ'', ''hello world'')"
    by code_simp
  have p: "parsed_record self ?l =
      Some \<lparr>item_host = host self, item_hive = hive self, item_key = key self,
            item_name = ''Sample'', item_type = ''REG_SZ'', item_value = ''hello world''\<rparr>"
    unfolding parsed_record_def using s t by simp
  have "LF \<notin> set ?l" by simp
  with e have "nonempty_lines (e @ [LF, LF] @ ?l) = filter (\<lambda>l. l \<noteq> []) [trim e, trim ?l]"
    by (intro nonempty_lines_sample) simp_all
  with e have "retained_lines (e @ [LF, LF] @ ?l) = [?l]"
    unfolding retained_lines_def using t(1) by simp
  then show "values_close self (Some 0) (e @ [LF, LF] @ ?l) =
        (None, Some [\<lparr>item_host = host self, item_hive = hive self, item_key = key self,
                       item_name = ''Sample'', item_type = ''REG_SZ'',
                       item_value = ''hello world''\<rparr>])"
    unfolding values_close_eq using p by (simp add: List.map_filter_simps)
next
  show "values_close self (Some 0) buffer =
     (None, Some (List.map_filter (parsed_record self) (retained_lines buffer)))"
    by (rule values_close_eq)
next
  assume "ITEM_PATTERN_exec l = None"
  then show "parsed_record self l = None"
    by (simp add: parsed_record_def)
qed

text \<open>C7 with the echoed line of a key, and on a line of the tool that is no value line.\<close>
theorem values_parses_sample_line_witness:
  "values_close \<lparr>host = [], hive = ''HKCU'', key = BS # ''Software''\<rparr> (Some 0)
     (''HKEY_CURRENT_USER'' @ BS # ''Software'' @ [LF, LF] @ ''Sample    REG_SZ    hello world'') =
     (None, Some [\<lparr>item_host = [], item_hive = ''HKCU'', item_key = BS # ''Software'',
                    item_name = ''Sample'', item_type = ''REG_SZ'',
                    item_value = ''hello world''\<rparr>]) \<and>
   ITEM_PATTERN_exec ''End of search: 1 match(es) found.'' = None \<and>
   parsed_record \<lparr>host = [], hive = ''HKCU'', key = BS # ''Software''\<rparr>
     ''End of search: 1 match(es) found.'' = None"
proof -
  define r where "r = \<lparr>host = [], hive = ''HKCU'', key = BS # ''Software''\<rparr>"
  define e where "e = ''HKEY_CURRENT_USER'' @ BS # ''Software''"
  have e: "LF \<notin> set e \<and> trim e \<noteq> []"
    by (simp add: e_def trim_def is_space_def)
  have n: "ITEM_PATTERN_exec ''End of search: 1 match(es) found.'' = None"
    by code_simp
  note w = values_parses_sample_line [of e r "[]" "''End of search: 1 match(es) found.''"]
  have "values_close r (Some 0) (e @ [LF, LF] @ ''Sample    REG_SZ    hello world'') =
     (None, Some [\<lparr>item_host = host r, item_hive = hive r, item_key = key r,
                    item_name = ''Sample'', item_type = ''REG_SZ'',
                    item_value = ''hello world''\<rparr>])"
    by (rule w [THEN conjunct1, THEN mp, OF e])
  moreover have "parsed_record r ''End of search: 1 match(es) found.'' = None"
    by (rule w [THEN conjunct2, THEN conjunct2, THEN mp, OF n])
  ultimately show ?thesis
    using n unfolding r_def e_def by simp
qed

text \<open>
  C8. The claim: \<^verbatim>\<open>set\<close> throws for a type outside the type ids before anything is
  spawned, and for a type among them spawns the tool with \<^verbatim>\<open>ADD\<close>, the path, the name,
  the type and the value. The first part holds (\<open>Registry_set_illegal_type\<close>), and so
  does the second for a Registry without a host (\<open>Registry_set_local\<close>). For a Registry
  with a host the getter \<^verbatim>\<open>path\<close> throws and nothing is spawned. Here the type is
  \<^verbatim>\<open>REG_SZ\<close> and the host is \<^verbatim>\<open>srv\<close>.
\<close>
theorem Registry_set_with_host_throws:
  "''REG_SZ'' \<in> set REG_TYPES \<and>
   Registry_set \<lparr>host = ''srv'', hive = ''HKLM'', key = BS # ''Software''\<rparr>
       ''Sample'' ''REG_SZ'' ''hello'' True =
     Inl (ReferenceError ''host is not defined'')"
  by (simp add: Registry_set_def Registry_path_def indexOf_minus_one REG_TYPES_def REG_SZ_def)

text \<open>
  C9. Constructing a Registry from a hive id and a key of the key grammar succeeds. The
  parent of a constructed Registry whose key ends in a backslash and a segment without
  backslash is the Registry of the same host and hive whose key is what comes before
  that backslash. The parent of a constructed Registry with the empty key is that
  Registry.
\<close>
theorem Registry_parent_drops_last_segment:
  "(v \<in> set HIVES \<and> key_grammar k \<longrightarrow>
      Registry (Some \<lparr>opt_host = JString h, opt_hive = JString v, opt_key = JString k\<rparr>) =
        Inr \<lparr>host = h, hive = v, key = k\<rparr>) \<and>
   (Registry opts = Inr self \<longrightarrow>
      (key self = p @ BS # seg \<and> BS \<notin> set seg \<longrightarrow>
         Registry_parent self = Inr \<lparr>host = host self, hive = hive self, key = p\<rparr>) \<and>
      (key self = [] \<longrightarrow> Registry_parent self = Inr self))"
proof (intro conjI impI)
  assume "v \<in> set HIVES \<and> key_grammar k"
  then have "v \<in> set HIVES" by simp
  moreover have "ToString (js_or (JString h) (JString [])) = h"
    by (cases h) (simp_all add: js_or_def)
  ultimately show "Registry (Some \<lparr>opt_host = JString h, opt_hive = JString v, opt_key = JString k\<rparr>) =
        Inr \<lparr>host = h, hive = v, key = k\<rparr>"
    by (simp add: Registry_strings)
next
  assume c: "Registry opts = Inr self" and s: "key self = p @ BS # seg \<and> BS \<notin> set seg"
  show "Registry_parent self = Inr \<lparr>host = host self, hive = hive self, key = p\<rparr>"
    by (rule Registry_parent_segment [OF c conjunct1 [OF s] conjunct2 [OF s]])
next
  assume c: "Registry opts = Inr self" and k: "key self = []"
  then have "BS \<notin> set (key self)" by simp
  with c have "Registry_parent self = Inr \<lparr>host = host self, hive = hive self, key = []\<rparr>"
    by (rule Registry_parent_root)
  with k show "Registry_parent self = Inr self" by simp
qed

text \<open>C9 on the key of two segments used by the tests, and on the root of a hive.\<close>
theorem Registry_parent_drops_last_segment_witness:
  "Registry (Some \<lparr>opt_host = JString [], opt_hive = JString ''HKCU'',
                    opt_key = JString (BS # ''Software'' @ BS # ''FrEsC'')\<rparr>) =
     Inr \<lparr>host = [], hive = ''HKCU'', key = BS # ''Software'' @ BS # ''FrEsC''\<rparr> \<and>
   Registry_parent \<lparr>host = [], hive = ''HKCU'', key = BS # ''Software'' @ BS # ''FrEsC''\<rparr> =
     Inr \<lparr>host = [], hive = ''HKCU'', key = BS # ''Software''\<rparr> \<and>
   Registry (Some \<lparr>opt_host = JString [], opt_hive = JString ''HKCU'', opt_key = JString []\<rparr>) =
     Inr \<lparr>host = [], hive = ''HKCU'', key = []\<rparr> \<and>
   Registry_parent \<lparr>host = [], hive = ''HKCU'', key = []\<rparr> =
     Inr \<lparr>host = [], hive = ''HKCU'', key = []\<rparr>"
proof -
  define k where "k = BS # ''Software'' @ BS # ''FrEsC''"
  define r where "r = \<lparr>host = [], hive = ''HKCU'', key = k\<rparr>"
  define root where "root = \<lparr>host = [], hive = ''HKCU'', key = []\<rparr>"
  define o1 where "o1 = Some \<lparr>opt_host = JString [], opt_hive = JString ''HKCU'', opt_key = JString k\<rparr>"
  define o2 where "o2 = Some \<lparr>opt_host = JString [], opt_hive = JString ''HKCU'', opt_key = JString []\<rparr>"
  have h: "''HKCU'' \<in> set HIVES"
    by (simp add: HIVES_def HKCU_def)
  have g1: "key_grammar k"
    by (simp add: k_def key_grammar_def split_def is_word_def is_space_def)
  have g2: "key_grammar []"
    by (simp add: key_grammar_def split_def)
  have c1: "Registry o1 = Inr r"
    unfolding o1_def r_def
    using Registry_parent_drops_last_segment [of "''HKCU''" k "[]", THEN conjunct1] h g1 by simp
  have c2: "Registry o2 = Inr root"
    unfolding o2_def root_def
    using Registry_parent_drops_last_segment [of "''HKCU''" "[]" "[]", THEN conjunct1] h g2 by simp
  have s: "key r = (BS # ''Software'') @ BS # ''FrEsC'' \<and> BS \<notin> set ''FrEsC''"
    by (simp add: r_def k_def)
  have "Registry_parent r = Inr \<lparr>host = host r, hive = hive r, key = BS # ''Software''\<rparr>"
    by (rule Registry_parent_drops_last_segment
          [THEN conjunct2, THEN mp, OF c1, THEN conjunct1, THEN mp, OF s])
  then have p1: "Registry_parent r = Inr \<lparr>host = [], hive = ''HKCU'', key = BS # ''Software''\<rparr>"
    by (simp add: r_def)
  have e: "key root = []"
    by (simp add: root_def)
  have p2: "Registry_parent root = Inr root"
    by (rule Registry_parent_drops_last_segment
          [THEN conjunct2, THEN mp, OF c2, THEN conjunct2, THEN mp, OF e])
  from c1 p1 c2 p2 show ?thesis
    unfolding o1_def o2_def r_def root_def k_def by (intro conjI)
qed



end
